theory Spec2Isabelle
  imports Main "HOL-Library.Sublist"
begin

section \<open>Strings, header lists and dictionaries\<close>

text \<open>
  The handler of \<^verbatim>\<open>.proxy/anthropic-proxy.py\<close> works on Python \<^verbatim>\<open>str\<close> values that
  \<^verbatim>\<open>http.server\<close> and \<^verbatim>\<open>http.client\<close> decode from the wire as ISO-8859-1, so every
  character is one byte and is a \<^typ>\<open>char\<close> here. \<^verbatim>\<open>str.lower()\<close> on such a string
  changes the ASCII capitals and the Latin-1 capitals (\<^verbatim>\<open>0xC0\<close> to \<^verbatim>\<open>0xDE\<close> without the
  multiplication sign \<^verbatim>\<open>0xD7\<close>).
\<close>

type_synonym bytes = "char list"

type_synonym header_list = "(string \<times> string) list"

definition lower_char :: "char \<Rightarrow> char" where
  "lower_char c =
     (let n = (of_char c :: nat)
      in if (65 \<le> n \<and> n \<le> 90) \<or> (192 \<le> n \<and> n \<le> 222 \<and> n \<noteq> 215)
         then char_of (n + 32) else c)"

definition lower :: "string \<Rightarrow> string" where
  "lower s = map lower_char s"

text \<open>
  \<^verbatim>\<open>self.headers\<close> is an \<^verbatim>\<open>email.message.Message\<close>: \<^verbatim>\<open>items()\<close> gives every header line
  in the order received, duplicates included, and \<^verbatim>\<open>get(name)\<close> gives the value of the first
  header whose lower-cased name is the lower-cased \<^verbatim>\<open>name\<close>, or \<^verbatim>\<open>None\<close>.
\<close>

fun msg_get :: "string \<Rightarrow> header_list \<Rightarrow> string option" where
  "msg_get name [] = None"
| "msg_get name ((k, v) # hs) = (if lower k = lower name then Some v else msg_get name hs)"

text \<open>Python truthiness of an optional string: \<^verbatim>\<open>None\<close> and \<^verbatim>\<open>""\<close> are false.\<close>

fun truthy :: "string option \<Rightarrow> bool" where
  "truthy None = False"
| "truthy (Some s) = (s \<noteq> [])"

text \<open>
  A Python \<^verbatim>\<open>dict\<close> keeps its keys in insertion order and compares them exactly
  (case-sensitively): \<^verbatim>\<open>d[k] = v\<close> replaces the value of an existing key where it stands
  and appends a new key at the end.
\<close>

fun dict_set :: "'k \<Rightarrow> 'v \<Rightarrow> ('k \<times> 'v) list \<Rightarrow> ('k \<times> 'v) list" where
  "dict_set k v [] = [(k, v)]"
| "dict_set k v ((k', v') # d) =
     (if k' = k then (k, v) # d else (k', v') # dict_set k v d)"

section \<open>Configuration\<close>

definition ANTHROPIC_HOST :: string where
  "ANTHROPIC_HOST = ''api.anthropic.com''"

definition ANTHROPIC_PORT :: nat where
  "ANTHROPIC_PORT = 443"

definition SKIP_REQUEST_HEADERS :: "string set" where
  "SKIP_REQUEST_HEADERS = {''host'', ''transfer-encoding''}"

definition SKIP_RESPONSE_HEADERS :: "string set" where
  "SKIP_RESPONSE_HEADERS = {''transfer-encoding'', ''connection''}"

text \<open>
  \<^verbatim>\<open>API_KEY\<close> is read from the environment when the module is loaded
  (\<^verbatim>\<open>os.environ.get("ANTHROPIC_API_KEY", "")\<close>); every function below takes it as its
  first argument.
\<close>

section \<open>Building the outbound headers\<close>

text \<open>
  Lines 62 to 70 of \<^verbatim>\<open>_proxy_request\<close>:
  \<^verbatim>\<open>
  headers = {"Host": ANTHROPIC_HOST}
  if API_KEY and not self.headers.get("x-api-key"):
      headers["x-api-key"] = API_KEY
  for header, value in self.headers.items():
      if header.lower() not in SKIP_REQUEST_HEADERS:
          headers[header] = value
  \<close>
\<close>

definition inject_key :: "string \<Rightarrow> header_list \<Rightarrow> bool" where
  "inject_key API_KEY inbound = (API_KEY \<noteq> [] \<and> \<not> truthy (msg_get ''x-api-key'' inbound))"

fun copy_headers :: "header_list \<Rightarrow> header_list \<Rightarrow> header_list" where
  "copy_headers [] headers = headers"
| "copy_headers ((header, val) # rest) headers =
     copy_headers rest
       (if lower header \<notin> SKIP_REQUEST_HEADERS then dict_set header val headers else headers)"

definition build_headers :: "string \<Rightarrow> header_list \<Rightarrow> header_list" where
  "build_headers API_KEY inbound =
     (let headers = [(''Host'', ANTHROPIC_HOST)];
          headers = (if inject_key API_KEY inbound
                     then dict_set ''x-api-key'' API_KEY headers else headers)
      in copy_headers inbound headers)"

section \<open>Exceptions\<close>

text \<open>
  The handler raises nothing itself: every failure is an exception of a library call.
  An exception is its class and its text (\<^verbatim>\<open>str(e)\<close>). The classes are the ones of
  \<^verbatim>\<open>http.client\<close>, \<^verbatim>\<open>ssl\<close> and the built-ins that these calls raise; the four
  \<^verbatim>\<open>isinstance\<close> tests below follow Python's class hierarchy: \<^verbatim>\<open>BadStatusLine\<close>,
  \<^verbatim>\<open>RemoteDisconnected\<close> and \<^verbatim>\<open>IncompleteRead\<close> derive from \<^verbatim>\<open>HTTPException\<close>;
  \<^verbatim>\<open>SSLCertVerificationError\<close> from \<^verbatim>\<open>ssl.SSLError\<close>; \<^verbatim>\<open>socket.timeout\<close> is
  \<^verbatim>\<open>TimeoutError\<close>; \<^verbatim>\<open>ConnectionRefusedError\<close>, \<^verbatim>\<open>ConnectionResetError\<close>,
  \<^verbatim>\<open>BrokenPipeError\<close> and \<^verbatim>\<open>socket.gaierror\<close> derive from \<^verbatim>\<open>OSError\<close> only; all of
  them derive from \<^verbatim>\<open>Exception\<close>, and \<^verbatim>\<open>KeyboardInterrupt\<close> does not.
\<close>

datatype exc_class =
    HTTPException | BadStatusLine | RemoteDisconnected | IncompleteRead
  | SSLError | SSLCertVerificationError
  | TimeoutError
  | ConnectionRefusedError | ConnectionResetError | BrokenPipeError | gaierror | OSError
  | ValueError | OverflowError | MemoryError | IndexError
  | KeyboardInterrupt

datatype exc = Exc (cls: exc_class) (str: string)

fun isinstance_HTTPException :: "exc_class \<Rightarrow> bool" where
  "isinstance_HTTPException HTTPException = True"
| "isinstance_HTTPException BadStatusLine = True"
| "isinstance_HTTPException RemoteDisconnected = True"
| "isinstance_HTTPException IncompleteRead = True"
| "isinstance_HTTPException _ = False"

fun isinstance_SSLError :: "exc_class \<Rightarrow> bool" where
  "isinstance_SSLError SSLError = True"
| "isinstance_SSLError SSLCertVerificationError = True"
| "isinstance_SSLError _ = False"

fun isinstance_TimeoutError :: "exc_class \<Rightarrow> bool" where
  "isinstance_TimeoutError TimeoutError = True"
| "isinstance_TimeoutError _ = False"

fun isinstance_Exception :: "exc_class \<Rightarrow> bool" where
  "isinstance_Exception KeyboardInterrupt = False"
| "isinstance_Exception _ = True"

section \<open>Reading the request body\<close>

text \<open>Decimal digits of a natural number, as \<^verbatim>\<open>str(n)\<close> gives them.\<close>

fun str_nat :: "nat \<Rightarrow> string" where
  "str_nat n =
     (if n < 10 then [char_of (48 + n)] else str_nat (n div 10) @ [char_of (48 + n mod 10)])"

text \<open>
  \<^verbatim>\<open>repr(s)\<close> of a string of Latin-1 characters: the string goes between single quotes, or
  between double quotes when it has a single quote and no double quote; the enclosing quote
  and the backslash are escaped with a backslash, tab, line feed and carriage return are
  written \<^verbatim>\<open>\t\<close>, \<^verbatim>\<open>\n\<close>, \<^verbatim>\<open>\r\<close>, and every other character that is not printable
  (below \<^verbatim>\<open>0x20\<close>, from \<^verbatim>\<open>0x7F\<close> to \<^verbatim>\<open>0xA0\<close>, and \<^verbatim>\<open>0xAD\<close>) is written
  \<^verbatim>\<open>\xNN\<close> with two lower-case hexadecimal digits.
\<close>

definition hex_digit :: "nat \<Rightarrow> char" where
  "hex_digit n = ''0123456789abcdef'' ! (n mod 16)"

definition py_isprintable :: "char \<Rightarrow> bool" where
  "py_isprintable c =
     (let n = (of_char c :: nat)
      in (32 \<le> n \<and> n < 127) \<or> (161 \<le> n \<and> n \<noteq> 173))"

definition repr_char :: "char \<Rightarrow> char \<Rightarrow> string" where
  "repr_char quote c =
     (if c = quote \<or> c = CHR 0x5C then [CHR 0x5C, c]
      else if c = CHR 0x09 then [CHR 0x5C, CHR ''t'']
      else if c = CHR 0x0A then [CHR 0x5C, CHR ''n'']
      else if c = CHR 0x0D then [CHR 0x5C, CHR ''r'']
      else if py_isprintable c then [c]
      else [CHR 0x5C, CHR ''x'', hex_digit (of_char c div 16), hex_digit (of_char c mod 16)])"

definition py_repr :: "string \<Rightarrow> string" where
  "py_repr s =
     (let quote = (if CHR 0x27 \<in> set s \<and> CHR 0x22 \<notin> set s then CHR 0x22 else CHR 0x27)
      in [quote] @ concat (map (repr_char quote) s) @ [quote])"

text \<open>
  \<^verbatim>\<open>int(s)\<close> on a string. White space is skipped (the characters \<^verbatim>\<open>0x09\<close> to \<^verbatim>\<open>0x0D\<close>,
  the space, \<^verbatim>\<open>0x85\<close> and \<^verbatim>\<open>0xA0\<close>), then one sign, then the run of digits and
  underscores is read: it has to be digits with single underscores between digits. A run of
  more than 4300 digits (the default of \<^verbatim>\<open>sys.int_max_str_digits\<close>) is refused next, and
  then anything but white space after the run. The \<^verbatim>\<open>ValueError\<close> of a malformed string
  quotes the first 200 characters of its \<^verbatim>\<open>repr\<close>.
\<close>

definition py_isspace :: "char \<Rightarrow> bool" where
  "py_isspace c =
     (let n = (of_char c :: nat)
      in (9 \<le> n \<and> n \<le> 13) \<or> n = 32 \<or> n = 133 \<or> n = 160)"

definition is_digit :: "char \<Rightarrow> bool" where
  "is_digit c = (let n = (of_char c :: nat) in 48 \<le> n \<and> n \<le> 57)"

fun py_digits :: "string \<Rightarrow> bool" where
  "py_digits [] = False"
| "py_digits [c] = is_digit c"
| "py_digits (c # d # cs) =
     (is_digit c \<and> (if d = CHR ''_'' then py_digits cs else py_digits (d # cs)))"

definition digits_value :: "string \<Rightarrow> int" where
  "digits_value ds = foldl (\<lambda>acc c. 10 * acc + (int (of_char c) - 48)) 0 ds"

definition int_max_str_digits :: nat where
  "int_max_str_digits = 4300"

definition invalid_literal :: "string \<Rightarrow> exc" where
  "invalid_literal s =
     Exc ValueError (''invalid literal for int() with base 10: '' @ take 200 (py_repr s))"

definition exceeds_limit :: "nat \<Rightarrow> exc" where
  "exceeds_limit n =
     Exc ValueError
       (''Exceeds the limit ('' @ str_nat int_max_str_digits
        @ '' digits) for integer string conversion: value has '' @ str_nat n
        @ '' digits; use sys.set_int_max_str_digits() to increase the limit'')"

definition split_sign :: "string \<Rightarrow> bool \<times> string" where
  "split_sign t =
     (case t of
        [] \<Rightarrow> (False, [])
      | c # cs \<Rightarrow>
          if c = CHR ''-'' then (True, cs)
          else if c = CHR ''+'' then (False, cs)
          else (False, t))"

definition py_int :: "string \<Rightarrow> exc + int" where
  "py_int s =
     (let (negative, u) = split_sign (dropWhile py_isspace s);
          run = takeWhile (\<lambda>c. is_digit c \<or> c = CHR ''_'') u;
          rest = dropWhile (\<lambda>c. is_digit c \<or> c = CHR ''_'') u;
          digits = filter (\<lambda>c. c \<noteq> CHR ''_'') run
      in if \<not> py_digits run then Inl (invalid_literal s)
         else if length digits > int_max_str_digits then Inl (exceeds_limit (length digits))
         else if dropWhile py_isspace rest \<noteq> [] then Inl (invalid_literal s)
         else Inr (if negative then - digits_value digits else digits_value digits))"

text \<open>
  \<^verbatim>\<open>self.rfile\<close> is a buffered reader on the caller's socket; the model holds the bytes
  the caller sends after the header block. \<^verbatim>\<open>read(n)\<close> gives the next \<^verbatim>\<open>n\<close> bytes
  (fewer when the caller's stream ends) and all of them for \<^verbatim>\<open>n = -1\<close>. It raises for an
  \<^verbatim>\<open>n\<close> that is no machine index, for \<^verbatim>\<open>n < -1\<close>, for an \<^verbatim>\<open>n\<close> above the longest byte
  string (\<^verbatim>\<open>2^63 - 34\<close> bytes), and, since it allocates the \<^verbatim>\<open>n\<close> bytes before it reads,
  for an \<^verbatim>\<open>n\<close> above what the process can allocate; \<open>max_alloc\<close> is that amount.
\<close>

definition rfile_read :: "int \<Rightarrow> int \<Rightarrow> bytes \<Rightarrow> exc + bytes" where
  "rfile_read max_alloc n rfile =
     (if n > 2 ^ 63 - 1 \<or> n < - (2 ^ 63)
        then Inl (Exc OverflowError
                   (''cannot fit '' @ [CHR 0x27] @ ''int'' @ [CHR 0x27]
                    @ '' into an index-sized integer''))
      else if n < - 1
        then Inl (Exc ValueError ''read length must be non-negative or -1'')
      else if n = - 1 then Inr rfile
      else if n > 2 ^ 63 - 34
        then Inl (Exc OverflowError ''byte string is too large'')
      else if n > max_alloc
        then Inl (Exc MemoryError [])
      else Inr (take (nat n) rfile))"

text \<open>
  The request as the handler has it when \<^verbatim>\<open>_proxy_request\<close> starts, with the memory the
  process can allocate at that moment.
\<close>

record inbound =
  requestline :: string
  path :: string
  headers :: header_list
  rfile :: bytes
  max_alloc :: int

text \<open>
  Lines 47 to 50:
  \<^verbatim>\<open>
  content_length = self.headers.get("Content-Length")
  body = None
  if content_length:
      body = self.rfile.read(int(content_length))
  \<close>
\<close>

definition read_body :: "inbound \<Rightarrow> exc + bytes option" where
  "read_body req =
     (let content_length = msg_get ''Content-Length'' (headers req)
      in if truthy content_length then
           (case content_length of
              None \<Rightarrow> Inr None
            | Some s \<Rightarrow>
                (case py_int s of
                   Inl e \<Rightarrow> Inl e
                 | Inr n \<Rightarrow>
                     (case rfile_read (max_alloc req) n (rfile req) of
                        Inl e \<Rightarrow> Inl e
                      | Inr body \<Rightarrow> Inr (Some body))))
         else Inr None)"

section \<open>The upstream and what the handler does\<close>

text \<open>
  An upstream response as \<^verbatim>\<open>conn.getresponse()\<close> returns it: the status, the header lines
  of \<^verbatim>\<open>getheaders()\<close>, and the body still to be read. The body is the bytes the upstream
  delivers and what follows them: the end of the stream, or a failure (a reset, a timeout,
  an incomplete read).
\<close>

record body_stream =
  pending :: bytes
  failure :: "exc option"

record response =
  status :: nat
  getheaders :: header_list
  body :: body_stream

text \<open>
  \<^verbatim>\<open>response.read(amt)\<close> blocks until \<^verbatim>\<open>amt\<close> bytes have arrived or the stream is over:
  it returns \<^verbatim>\<open>amt\<close> bytes, or the fewer bytes left before the end of the stream
  (none at the end itself), and raises when the stream fails first.
  \<^verbatim>\<open>response.read()\<close> reads to the end of the stream.
\<close>

definition response_read :: "nat \<Rightarrow> body_stream \<Rightarrow> exc + (bytes \<times> body_stream)" where
  "response_read amt s =
     (if amt \<le> length (pending s)
        then Inr (take amt (pending s), s\<lparr>pending := drop amt (pending s)\<rparr>)
      else case failure s of
             Some e \<Rightarrow> Inl e
           | None \<Rightarrow> Inr (pending s, s\<lparr>pending := []\<rparr>))"

definition response_read_all :: "body_stream \<Rightarrow> exc + bytes" where
  "response_read_all s = (case failure s of Some e \<Rightarrow> Inl e | None \<Rightarrow> Inr (pending s))"

text \<open>
  The upstream answers the request it is sent: \<^verbatim>\<open>conn.request\<close> fails (no connection,
  a TLS failure, a header that \<^verbatim>\<open>http.client\<close> rejects), or \<^verbatim>\<open>conn.getresponse\<close>
  fails, or a response comes back.
\<close>

datatype upstream_reply =
    RequestFails exc
  | GetResponseFails exc
  | Responds response

type_synonym upstream = "string \<Rightarrow> string \<Rightarrow> bytes option \<Rightarrow> header_list \<Rightarrow> upstream_reply"

text \<open>
  The calls the handler makes on the upstream connection and on the caller's side, in the
  order it makes them. \<open>Response_read\<close> is a call of \<^verbatim>\<open>response.read\<close> with its argument
  (none for \<^verbatim>\<open>read()\<close>) and what it returned or raised.
\<close>

datatype event =
    HTTPSConnection string nat nat
  | Conn_request string string "bytes option" header_list
  | Response_read "nat option" "exc + bytes"
  | Conn_close
  | Send_response nat
  | Send_header string string
  | End_headers
  | Wfile_write bytes
  | Wfile_flush
  | Send_error nat string

datatype outcome = Returned | Raised exc

section \<open>Relaying the response\<close>

text \<open>
  Lines 80 to 88: every response header outside \<^verbatim>\<open>SKIP_RESPONSE_HEADERS\<close> is sent on, and
  \<^verbatim>\<open>is_streaming\<close> is set when one of them is a \<^verbatim>\<open>content-type\<close> whose value contains
  \<^verbatim>\<open>text/event-stream\<close>.
\<close>

fun forward_headers :: "header_list \<Rightarrow> bool \<Rightarrow> event list \<times> bool" where
  "forward_headers [] is_streaming = ([], is_streaming)"
| "forward_headers ((header, val) # rest) is_streaming =
     (if lower header \<notin> SKIP_RESPONSE_HEADERS then
        (let is_streaming' =
               (if lower header = ''content-type'' \<and> sublist ''text/event-stream'' val
                then True else is_streaming);
             (evs, flag) = forward_headers rest is_streaming'
         in (Send_header header val # evs, flag))
      else forward_headers rest is_streaming)"

text \<open>
  Lines 95 to 100:
  \<^verbatim>\<open>
  while True:
      chunk = response.read(4096)
      if not chunk:
          break
      self.wfile.write(chunk)
      self.wfile.flush()
  \<close>
\<close>

function stream_relay :: "body_stream \<Rightarrow> event list \<times> exc option" where
  "stream_relay s =
     (case response_read 4096 s of
        Inl e \<Rightarrow> ([Response_read (Some 4096) (Inl e)], Some e)
      | Inr (chunk, s') \<Rightarrow>
          if chunk = [] then ([Response_read (Some 4096) (Inr [])], None)
          else (let (evs, r) = stream_relay s'
                in (Response_read (Some 4096) (Inr chunk)
                    # Wfile_write chunk # Wfile_flush # evs, r)))"
  by pat_completeness auto
termination
proof (relation "measure (\<lambda>s. length (pending s))")
  show "wf (measure (\<lambda>s. length (pending s)))"
    by simp
next
  fix s :: body_stream and x2 x y
  assume "response_read 4096 s = Inr x2" and "(x, y) = x2" and "x \<noteq> []"
  then show "(y, s) \<in> measure (\<lambda>s. length (pending s))"
    by (auto simp: response_read_def split: if_splits option.splits)
qed

declare stream_relay.simps [simp del]

definition relay_body :: "bool \<Rightarrow> body_stream \<Rightarrow> event list \<times> exc option" where
  "relay_body is_streaming s =
     (if is_streaming then stream_relay s
      else case response_read_all s of
             Inl e \<Rightarrow> ([Response_read None (Inl e)], Some e)
           | Inr data \<Rightarrow> ([Response_read None (Inr data), Wfile_write data], None))"

section \<open>The request handler\<close>

text \<open>
  The body of the \<^verbatim>\<open>try\<close> statement, lines 56 to 105. It gives the calls made and the
  exception that ended it, if one did. \<^verbatim>\<open>http.client.HTTPSConnection(...)\<close> only builds
  the connection object; the socket is opened by \<^verbatim>\<open>conn.request\<close>.
  \<^verbatim>\<open>conn.close()\<close> is the last statement of the body.
\<close>

definition try_body ::
  "string \<Rightarrow> string \<Rightarrow> inbound \<Rightarrow> bytes option \<Rightarrow> upstream \<Rightarrow> event list \<times> exc option" where
  "try_body API_KEY meth req body_opt up =
     (let hdrs = build_headers API_KEY (headers req);
          sent = [HTTPSConnection ANTHROPIC_HOST ANTHROPIC_PORT 300,
                  Conn_request meth (path req) body_opt hdrs]
      in case up meth (path req) body_opt hdrs of
           RequestFails e \<Rightarrow> (sent, Some e)
         | GetResponseFails e \<Rightarrow> (sent, Some e)
         | Responds r \<Rightarrow>
             (let (hevs, is_streaming) = forward_headers (getheaders r) False;
                  (bevs, failed) = relay_body is_streaming (body r);
                  relayed = sent @ [Send_response (status r)] @ hevs @ [End_headers] @ bevs
              in case failed of
                   Some e \<Rightarrow> (relayed, Some e)
                 | None \<Rightarrow> (relayed @ [Conn_close], None)))"

text \<open>
  The \<^verbatim>\<open>except\<close> clauses, lines 107 to 114, tried in their order. An exception that is
  no \<^verbatim>\<open>Exception\<close> leaves the handler.
\<close>

definition except_clauses :: "exc \<Rightarrow> event list \<times> outcome" where
  "except_clauses e =
     (if isinstance_HTTPException (cls e) then
        ([Send_error 502 (''Upstream error: '' @ str e)], Returned)
      else if isinstance_SSLError (cls e) then
        ([Send_error 502 (''SSL error: '' @ str e)], Returned)
      else if isinstance_TimeoutError (cls e) then
        ([Send_error 504 ''Upstream timeout''], Returned)
      else if isinstance_Exception (cls e) then
        ([Send_error 500 (''Proxy error: '' @ str e)], Returned)
      else ([], Raised e))"

text \<open>
  \<^verbatim>\<open>_proxy_request\<close>: the body is read before the \<^verbatim>\<open>try\<close> statement is entered, so an
  exception of that step leaves the handler with nothing sent.
\<close>

definition proxy_request ::
  "string \<Rightarrow> string \<Rightarrow> inbound \<Rightarrow> upstream \<Rightarrow> event list \<times> outcome" where
  "proxy_request API_KEY meth req up =
     (case read_body req of
        Inl e \<Rightarrow> ([], Raised e)
      | Inr body_opt \<Rightarrow>
          (case try_body API_KEY meth req body_opt up of
             (evs, None) \<Rightarrow> (evs, Returned)
           | (evs, Some e) \<Rightarrow>
               (let (hevs, out) = except_clauses e in (evs @ hevs, out))))"

definition do_GET :: "string \<Rightarrow> inbound \<Rightarrow> upstream \<Rightarrow> event list \<times> outcome" where
  "do_GET API_KEY req up = proxy_request API_KEY ''GET'' req up"

definition do_POST :: "string \<Rightarrow> inbound \<Rightarrow> upstream \<Rightarrow> event list \<times> outcome" where
  "do_POST API_KEY req up = proxy_request API_KEY ''POST'' req up"

definition do_OPTIONS :: "string \<Rightarrow> inbound \<Rightarrow> upstream \<Rightarrow> event list \<times> outcome" where
  "do_OPTIONS API_KEY req up =
     ([Send_response 200,
       Send_header ''Access-Control-Allow-Origin'' ''*'',
       Send_header ''Access-Control-Allow-Methods'' ''GET, POST, OPTIONS'',
       Send_header ''Access-Control-Allow-Headers'' ''*'',
       End_headers], Returned)"

section \<open>Log lines and error messages\<close>











section \<open>What the caller and the upstream observe\<close>

text \<open>
  The status codes the caller is sent, in order: one for each \<^verbatim>\<open>send_response\<close> and one for
  each \<^verbatim>\<open>send_error\<close>.
\<close>

fun status_of :: "event \<Rightarrow> nat list" where
  "status_of (Send_response code) = [code]"
| "status_of (Send_error code message) = [code]"
| "status_of _ = []"

definition statuses :: "event list \<Rightarrow> nat list" where
  "statuses evs = concat (map status_of evs)"

text \<open>
  \<^verbatim>\<open>send_response\<close> and \<^verbatim>\<open>send_header\<close> only fill the header buffer of the base class;
  \<^verbatim>\<open>end_headers\<close> writes the buffer to the caller's socket, \<^verbatim>\<open>wfile.write\<close> writes to it
  directly, and \<^verbatim>\<open>send_error\<close> writes a whole response. \<open>error_after_output\<close> says
  that some \<^verbatim>\<open>send_error\<close> comes after bytes have been written.
\<close>

fun writes_bytes :: "event \<Rightarrow> bool" where
  "writes_bytes End_headers = True"
| "writes_bytes (Wfile_write data) = True"
| "writes_bytes (Send_error code message) = True"
| "writes_bytes _ = False"

fun error_after_output :: "bool \<Rightarrow> event list \<Rightarrow> bool" where
  "error_after_output sent [] = False"
| "error_after_output sent (Send_error code message # evs) =
     (sent \<or> error_after_output True evs)"
| "error_after_output sent (ev # evs) = error_after_output (sent \<or> writes_bytes ev) evs"

fun upstream_call :: "event \<Rightarrow> bool" where
  "upstream_call (HTTPSConnection host port timeout) = True"
| "upstream_call (Conn_request meth p body_opt hdrs) = True"
| "upstream_call (Response_read amt result) = True"
| "upstream_call Conn_close = True"
| "upstream_call _ = False"

text \<open>
  The inbound headers as the loop of lines 68 to 70 leaves them in a dictionary: without the
  names whose lower case is in \<^verbatim>\<open>SKIP_REQUEST_HEADERS\<close>, and with the last value of a name
  that comes twice in the same spelling. \<open>forwarded_plus_host\<close> is the outbound mapping
  as the specification words it: these headers and \<^verbatim>\<open>Host\<close>.
\<close>

definition forwarded :: "header_list \<Rightarrow> (string \<rightharpoonup> string)" where
  "forwarded inbound =
     map_of (rev (filter (\<lambda>(h, v). lower h \<notin> SKIP_REQUEST_HEADERS) inbound))"

definition forwarded_plus_host :: "header_list \<Rightarrow> (string \<rightharpoonup> string)" where
  "forwarded_plus_host inbound = (forwarded inbound)(''Host'' \<mapsto> ANTHROPIC_HOST)"

text \<open>
  \<open>detectStreaming\<close> of the specification: some \<^verbatim>\<open>content-type\<close> header value contains
  the marker of a server-sent-event stream.
\<close>

definition detectStreaming :: "header_list \<Rightarrow> bool" where
  "detectStreaming hs =
     (\<exists>(h, v) \<in> set hs. lower h = ''content-type'' \<and> sublist ''text/event-stream'' v)"

text \<open>
  What the handler has done when the response headers have gone out: the connection object,
  the request, the status and the forwarded response headers.
\<close>

definition relayed_head ::
  "string \<Rightarrow> string \<Rightarrow> inbound \<Rightarrow> bytes option \<Rightarrow> response \<Rightarrow> event list" where
  "relayed_head API_KEY meth req body_opt r =
     [HTTPSConnection ANTHROPIC_HOST ANTHROPIC_PORT 300,
      Conn_request meth (path req) body_opt (build_headers API_KEY (headers req)),
      Send_response (status r)]
     @ fst (forward_headers (getheaders r) False) @ [End_headers]"

text \<open>
  The streaming relay as the specification words it. \<open>chunks_of n xs\<close> cuts \<open>xs\<close>
  into consecutive blocks of \<open>n\<close> elements, the last one shorter when the length is no
  multiple of \<open>n\<close>. \<open>delivered amt s\<close> is what successive reads of \<open>amt\<close> bytes
  return of a body: all its bytes when the stream ends normally, and its whole blocks of
  \<open>amt\<close> bytes when the stream fails. \<open>chunk_relay\<close> reads each chunk, writes it and
  flushes, one chunk after the other, and \<open>last_read\<close> is the read that ends the loop:
  it returns no bytes at the end of the stream, or raises the failure of the stream.
\<close>

fun chunks_of :: "nat \<Rightarrow> 'a list \<Rightarrow> 'a list list" where
  "chunks_of n xs = (if n = 0 \<or> xs = [] then [] else take n xs # chunks_of n (drop n xs))"

declare chunks_of.simps [simp del]

definition delivered :: "nat \<Rightarrow> body_stream \<Rightarrow> bytes" where
  "delivered amt s =
     (case failure s of
        None \<Rightarrow> pending s
      | Some e \<Rightarrow> take (length (pending s) div amt * amt) (pending s))"

definition chunk_relay :: "nat \<Rightarrow> bytes list \<Rightarrow> event list" where
  "chunk_relay amt chunks =
     concat (map (\<lambda>c. [Response_read (Some amt) (Inr c), Wfile_write c, Wfile_flush]) chunks)"

definition last_read :: "nat \<Rightarrow> body_stream \<Rightarrow> event" where
  "last_read amt s =
     Response_read (Some amt) (case failure s of None \<Rightarrow> Inr [] | Some e \<Rightarrow> Inl e)"

section \<open>Scenarios\<close>

text \<open>Concrete requests and upstreams, for the instances evaluated below.\<close>

definition example_request :: inbound where
  "example_request =
     \<lparr>requestline = ''GET /v1/models HTTP/1.1'', path = ''/v1/models'',
      headers = [(''Accept'', ''*/*'')], rfile = [],
      max_alloc = 1073741824\<rparr>"

definition empty_length_request :: inbound where
  "empty_length_request =
     \<lparr>requestline = ''POST /v1/messages HTTP/1.1'', path = ''/v1/messages'',
      headers = [(''Content-Length'', [])], rfile = [],
      max_alloc = 1073741824\<rparr>"

definition bad_length_request :: inbound where
  "bad_length_request =
     \<lparr>requestline = ''POST /v1/messages HTTP/1.1'', path = ''/v1/messages'',
      headers = [(''Content-Length'', ''12a'')], rfile = ''hello'',
      max_alloc = 1073741824\<rparr>"

definition refusing_upstream :: upstream where
  "refusing_upstream meth p body_opt hdrs =
     RequestFails (Exc ConnectionRefusedError ''[Errno 111] Connection refused'')"

definition silent_upstream :: upstream where
  "silent_upstream meth p body_opt hdrs =
     GetResponseFails (Exc TimeoutError ''The read operation timed out'')"

definition json_response :: response where
  "json_response =
     \<lparr>status = 200,
      getheaders = [(''Content-Type'', ''application/json''), (''Connection'', ''keep-alive'')],
      body = \<lparr>pending = ''{}'', failure = None\<rparr>\<rparr>"

definition json_upstream :: upstream where
  "json_upstream meth p body_opt hdrs = Responds json_response"

definition sse_response :: response where
  "sse_response =
     \<lparr>status = 200,
      getheaders = [(''Content-Type'', ''text/event-stream; charset=utf-8'')],
      body = \<lparr>pending = ''data: ping'', failure = None\<rparr>\<rparr>"


definition truncated_response :: response where
  "truncated_response =
     \<lparr>status = 200,
      getheaders = [(''Content-Type'', ''application/json'')],
      body = \<lparr>pending = ''{'',
              failure = Some (Exc IncompleteRead ''IncompleteRead(1 bytes read)'')\<rparr>\<rparr>"

definition broken_stream_response :: response where
  "broken_stream_response =
     \<lparr>status = 200,
      getheaders = [(''content-type'', ''text/event-stream'')],
      body = \<lparr>pending = replicate 4096 (CHR ''a'') @ ''data: late'',
              failure = Some (Exc TimeoutError ''The read operation timed out'')\<rparr>\<rparr>"

definition broken_stream_upstream :: upstream where
  "broken_stream_upstream meth p body_opt hdrs = Responds broken_stream_response"

definition truncating_upstream :: upstream where
  "truncating_upstream meth p body_opt hdrs = Responds truncated_response"


section \<open>Outbound headers\<close>

lemma map_of_dict_set: "map_of (dict_set k v d) = (map_of d)(k \<mapsto> v)"
  by (induction d) auto

lemma map_of_copy_headers: "map_of (copy_headers inbound d) = map_of d ++ forwarded inbound"
  unfolding forwarded_def
  by (induction inbound arbitrary: d)
     (auto simp: map_of_dict_set map_add_def fun_eq_iff split: option.splits)

lemma msg_get_None_iff:
  "msg_get name hs = None \<longleftrightarrow> (\<forall>(k, v) \<in> set hs. lower k \<noteq> lower name)"
  by (induction name hs rule: msg_get.induct) auto

lemma lower_Host: "lower ''Host'' = ''host''"
  by code_simp

lemma lower_x_api_key: "lower ''x-api-key'' = ''x-api-key''"
  by code_simp

lemma forwarded_skipped: "lower k \<in> SKIP_REQUEST_HEADERS \<Longrightarrow> forwarded inbound k = None"
  unfolding forwarded_def by (auto simp: map_of_eq_None_iff)

lemma forwarded_Host: "forwarded inbound ''Host'' = None"
  by (rule forwarded_skipped) (simp add: lower_Host SKIP_REQUEST_HEADERS_def)

lemma forwarded_absent:
  "msg_get name inbound = None \<Longrightarrow> lower k = lower name \<Longrightarrow> forwarded inbound k = None"
  unfolding forwarded_def by (auto simp: map_of_eq_None_iff msg_get_None_iff)

text \<open>
  The outbound dictionary in every case: \<^verbatim>\<open>Host\<close>, the injected key when the guard of
  line 65 holds, and over them the forwarded inbound headers.
\<close>

lemma map_of_build_headers:
  "map_of (build_headers API_KEY inbound) =
     (if inject_key API_KEY inbound
      then [''Host'' \<mapsto> ANTHROPIC_HOST, ''x-api-key'' \<mapsto> API_KEY]
      else [''Host'' \<mapsto> ANTHROPIC_HOST]) ++ forwarded inbound"
proof -
  have "''Host'' \<noteq> ''x-api-key''"
    by simp
  then have "map_of (dict_set ''x-api-key'' API_KEY [(''Host'', ANTHROPIC_HOST)]) =
               [''Host'' \<mapsto> ANTHROPIC_HOST, ''x-api-key'' \<mapsto> API_KEY]"
    by (auto simp: fun_eq_iff)
  then show ?thesis
    by (simp add: build_headers_def Let_def map_of_copy_headers)
qed

text \<open>
  The two halves of the injection rule where they hold: with a credential configured and no
  \<^verbatim>\<open>x-api-key\<close> header in any spelling, the outbound dictionary has the configured value
  under \<^verbatim>\<open>x-api-key\<close> and under no other spelling; with an \<^verbatim>\<open>x-api-key\<close> header whose
  first value is not empty, the configured credential changes nothing.
\<close>

lemma credential_injected_when_absent:
  assumes "API_KEY \<noteq> []" and "msg_get ''x-api-key'' inbound = None"
  shows "map_of (build_headers API_KEY inbound) ''x-api-key'' = Some API_KEY"
    and "lower k = ''x-api-key'' \<Longrightarrow> k \<in> dom (map_of (build_headers API_KEY inbound))
           \<Longrightarrow> k = ''x-api-key''"
proof -
  from assms have inj: "inject_key API_KEY inbound"
    by (simp add: inject_key_def)
  have none: "forwarded inbound k' = None" if "lower k' = ''x-api-key''" for k'
    using assms(2) that by (auto intro: forwarded_absent simp: lower_x_api_key)
  show "map_of (build_headers API_KEY inbound) ''x-api-key'' = Some API_KEY"
    using inj none [of "''x-api-key''"]
    by (simp add: map_of_build_headers map_add_def lower_x_api_key)
  show "k = ''x-api-key''"
    if "lower k = ''x-api-key''" and "k \<in> dom (map_of (build_headers API_KEY inbound))"
    using that inj none [of k]
    by (auto simp: map_of_build_headers map_add_def dom_def lower_Host
             split: if_splits option.splits)
qed

lemma credential_not_injected_when_supplied:
  assumes "msg_get ''x-api-key'' inbound = Some v" and "v \<noteq> []"
  shows "build_headers API_KEY inbound = build_headers [] inbound"
  using assms by (simp add: build_headers_def inject_key_def)

text \<open>
  C1. The claim: with a non-empty credential and no \<^verbatim>\<open>x-api-key\<close> header in the request the
  outbound request carries the configured value, and a request that already carries the
  header keeps the caller's value, with no configured credential put in. The code at a
  request that carries the header with an empty value (\<^verbatim>\<open>X-Api-Key:\<close>): the guard of line 65
  tests the value for truth, not the header for presence, so the configured credential is
  sent under \<^verbatim>\<open>x-api-key\<close> beside the caller's own header; without a configured credential
  the same request goes out with the caller's header alone.
\<close>

theorem credential_header_present_but_empty:
  "msg_get ''x-api-key'' [(''X-Api-Key'', [])] = Some [] \<and>
   build_headers ''sk-test'' [(''X-Api-Key'', [])] =
     [(''Host'', ''api.anthropic.com''), (''x-api-key'', ''sk-test''), (''X-Api-Key'', [])] \<and>
   build_headers [] [(''X-Api-Key'', [])] =
     [(''Host'', ''api.anthropic.com''), (''X-Api-Key'', [])]"
  by code_simp

text \<open>
  C2, as amended. The claim: the outbound mapping is the inbound headers without the skip-set,
  plus \<^verbatim>\<open>Host\<close> set to the upstream host. The code adds the credential header too: for a
  request that carries no empty-valued \<^verbatim>\<open>x-api-key\<close> header, the outbound mapping is the
  forwarded inbound headers plus \<^verbatim>\<open>Host\<close>, and plus \<^verbatim>\<open>x-api-key\<close> with the configured value
  when a credential is configured and the request has no \<^verbatim>\<open>x-api-key\<close> header.
\<close>

theorem outbound_headers:
  assumes "msg_get ''x-api-key'' inbound \<noteq> Some []"
  shows "map_of (build_headers API_KEY inbound) =
           (if API_KEY \<noteq> [] \<and> msg_get ''x-api-key'' inbound = None
            then (forwarded_plus_host inbound)(''x-api-key'' \<mapsto> API_KEY)
            else forwarded_plus_host inbound)"
proof (cases "API_KEY \<noteq> [] \<and> msg_get ''x-api-key'' inbound = None")
  case True
  then have inj: "inject_key API_KEY inbound"
    by (simp add: inject_key_def)
  from True have "forwarded inbound ''x-api-key'' = None"
    by (auto intro: forwarded_absent)
  then show ?thesis
    using True inj forwarded_Host [of inbound]
    by (auto simp: map_of_build_headers forwarded_plus_host_def map_add_def fun_eq_iff
             split: option.splits)
next
  case False
  with assms have "\<not> inject_key API_KEY inbound"
    by (cases "msg_get ''x-api-key'' inbound") (auto simp: inject_key_def)
  then show ?thesis
    using False forwarded_Host [of inbound]
    by (auto simp: map_of_build_headers forwarded_plus_host_def map_add_def fun_eq_iff
             split: option.splits)
qed

theorem outbound_headers_witness:
  "msg_get ''x-api-key'' [(''Accept'', ''*/*''), (''Host'', ''localhost:3129'')] \<noteq> Some [] \<and>
   map_of (build_headers ''sk-test'' [(''Accept'', ''*/*''), (''Host'', ''localhost:3129'')]) =
     (if ''sk-test'' \<noteq> [] \<and>
         msg_get ''x-api-key'' [(''Accept'', ''*/*''), (''Host'', ''localhost:3129'')] = None
      then (forwarded_plus_host [(''Accept'', ''*/*''), (''Host'', ''localhost:3129'')])
             (''x-api-key'' \<mapsto> ''sk-test'')
      else forwarded_plus_host [(''Accept'', ''*/*''), (''Host'', ''localhost:3129'')])"
proof -
  have h: "msg_get ''x-api-key'' [(''Accept'', ''*/*''), (''Host'', ''localhost:3129'')] \<noteq> Some []"
    by code_simp
  from outbound_headers [OF h, of "''sk-test''"] h show ?thesis
    by blast
qed

text \<open>
  The claim C2 as it is worded fails with a credential configured and a request without
  headers: the outbound mapping has \<^verbatim>\<open>x-api-key\<close>, the worded one has not.
\<close>

theorem outbound_headers_counterexample:
  "map_of (build_headers ''sk-test'' []) \<noteq> forwarded_plus_host []"
proof
  assume "map_of (build_headers ''sk-test'' []) = forwarded_plus_host []"
  then have "map_of (build_headers ''sk-test'' []) ''x-api-key'' =
               forwarded_plus_host [] ''x-api-key''"
    by simp
  moreover have "map_of (build_headers ''sk-test'' []) ''x-api-key'' = Some ''sk-test''"
    by code_simp
  moreover have "forwarded_plus_host [] ''x-api-key'' = None"
    by (simp add: forwarded_plus_host_def forwarded_def)
  ultimately show False by simp
qed

section \<open>Error translation\<close>

text \<open>
  C3, as amended. The claim: a refused upstream connection (a network or TLS failure) gives
  the caller status 502, and an upstream that does not answer in time gives 504. The
  \<^verbatim>\<open>except\<close> clauses give 502 to \<^verbatim>\<open>http.client.HTTPException\<close> and \<^verbatim>\<open>ssl.SSLError\<close>, 504 to
  \<^verbatim>\<open>TimeoutError\<close>, and 500 to every other \<^verbatim>\<open>Exception\<close>, so to a refused connection too
  (\<^verbatim>\<open>ConnectionRefusedError\<close> is an \<^verbatim>\<open>OSError\<close>): for every failure of \<^verbatim>\<open>conn.request\<close> or
  \<^verbatim>\<open>conn.getresponse\<close>, the one status the caller is sent is the one of the first clause that
  matches.
\<close>

theorem upstream_failure_status:
  assumes "read_body req = Inr body_opt"
    and "up meth (path req) body_opt (build_headers API_KEY (headers req)) = RequestFails e
         \<or> up meth (path req) body_opt (build_headers API_KEY (headers req)) = GetResponseFails e"
  shows "statuses (fst (proxy_request API_KEY meth req up)) =
           (if isinstance_HTTPException (cls e) \<or> isinstance_SSLError (cls e) then [502]
            else if isinstance_TimeoutError (cls e) then [504]
            else if isinstance_Exception (cls e) then [500]
            else [])"
  using assms
  by (auto simp: proxy_request_def try_body_def Let_def except_clauses_def statuses_def)

theorem upstream_failure_status_witness:
  "read_body example_request = Inr None \<and>
   (silent_upstream ''GET'' (path example_request) None
      (build_headers ''sk-test'' (headers example_request)) =
        RequestFails (Exc TimeoutError ''The read operation timed out'')
    \<or> silent_upstream ''GET'' (path example_request) None
      (build_headers ''sk-test'' (headers example_request)) =
        GetResponseFails (Exc TimeoutError ''The read operation timed out'')) \<and>
   statuses (fst (proxy_request ''sk-test'' ''GET'' example_request silent_upstream)) = [504]"
proof -
  have h1: "read_body example_request = Inr None"
    by code_simp
  have h2: "silent_upstream ''GET'' (path example_request) None
      (build_headers ''sk-test'' (headers example_request)) =
        RequestFails (Exc TimeoutError ''The read operation timed out'')
    \<or> silent_upstream ''GET'' (path example_request) None
      (build_headers ''sk-test'' (headers example_request)) =
        GetResponseFails (Exc TimeoutError ''The read operation timed out'')"
    by (simp add: silent_upstream_def)
  from upstream_failure_status
         [of example_request None silent_upstream "''GET''" "''sk-test''"
            "Exc TimeoutError ''The read operation timed out''", OF h1 h2]
  have "statuses (fst (proxy_request ''sk-test'' ''GET'' example_request silent_upstream)) = [504]"
    by simp
  with h1 h2 show ?thesis
    by blast
qed

text \<open>
  The claim C3 as it is worded fails at an upstream that refuses the connection: the caller
  is sent 500, not 502.
\<close>

theorem connection_refused_counterexample:
  "statuses (fst (proxy_request ''sk-test'' ''GET'' example_request refusing_upstream)) = [500] \<and>
   502 \<notin> set (statuses (fst (proxy_request ''sk-test'' ''GET'' example_request refusing_upstream)))"
  by code_simp

section \<open>Pre-flight requests\<close>

text \<open>
  C8. A pre-flight (\<^verbatim>\<open>OPTIONS\<close>) request makes no call on an upstream connection and is
  answered with status 200 and the three CORS headers: any origin, the methods
  \<^verbatim>\<open>GET, POST, OPTIONS\<close>, any header.
\<close>

theorem preflight:
  "do_OPTIONS API_KEY req up =
     ([Send_response 200,
       Send_header ''Access-Control-Allow-Origin'' ''*'',
       Send_header ''Access-Control-Allow-Methods'' ''GET, POST, OPTIONS'',
       Send_header ''Access-Control-Allow-Headers'' ''*'',
       End_headers], Returned) \<and>
   filter upstream_call (fst (do_OPTIONS API_KEY req up)) = [] \<and>
   statuses (fst (do_OPTIONS API_KEY req up)) = [200]"
  by (simp add: do_OPTIONS_def statuses_def)

section \<open>A malformed Content-Length\<close>

text \<open>
  \<^verbatim>\<open>int\<close> raises one of two errors, both of class \<^verbatim>\<open>ValueError\<close>. It takes the no-break
  space for white space and the unit separator \<^verbatim>\<open>0x1F\<close> for none.
\<close>

lemma py_int_Inl:
  assumes "py_int v = Inl e"
  shows "e = invalid_literal v \<or> (\<exists>n. e = exceeds_limit n)"
proof -
  obtain negative u where nu: "split_sign (dropWhile py_isspace v) = (negative, u)"
    by (cases "split_sign (dropWhile py_isspace v)")
  from assms show ?thesis
    unfolding py_int_def Let_def nu by (auto split: if_splits)
qed

lemma py_int_white_space:
  "py_int ('' +1_000 '' @ [CHR 0xA0]) = Inr 1000"
  "py_int (''5'' @ [CHR 0x1F]) = Inl (invalid_literal (''5'' @ [CHR 0x1F]))"
  by code_simp+

text \<open>
  C10, as amended. The claim: a request whose \<^verbatim>\<open>Content-Length\<close> value is no valid integer
  makes the body-reading step raise before the \<^verbatim>\<open>try\<close> statement, so that nothing is sent to
  the caller. The step is guarded by \<^verbatim>\<open>if content_length:\<close>, so this holds for every value
  that is not empty and that \<^verbatim>\<open>int\<close> rejects: the handler ends with the \<^verbatim>\<open>ValueError\<close>,
  having called nothing.
\<close>

theorem bad_content_length_raises:
  assumes "msg_get ''Content-Length'' (headers req) = Some v" and "v \<noteq> []"
    and "py_int v = Inl e"
  shows "proxy_request API_KEY meth req up = ([], Raised e) \<and> cls e = ValueError"
proof -
  from py_int_Inl [OF assms(3)] have "cls e = ValueError"
    by (auto simp: invalid_literal_def exceeds_limit_def)
  moreover from assms have "proxy_request API_KEY meth req up = ([], Raised e)"
    by (simp add: proxy_request_def read_body_def)
  ultimately show ?thesis
    by (rule conjI [rotated])
qed

theorem bad_content_length_raises_witness:
  "msg_get ''Content-Length'' (headers bad_length_request) = Some ''12a'' \<and> ''12a'' \<noteq> [] \<and>
   py_int ''12a'' =
     Inl (Exc ValueError (''invalid literal for int() with base 10: '' @ [CHR 0x27] @ ''12a''
                          @ [CHR 0x27])) \<and>
   proxy_request ''sk-test'' ''POST'' bad_length_request json_upstream =
     ([], Raised (Exc ValueError (''invalid literal for int() with base 10: '' @ [CHR 0x27]
                                  @ ''12a'' @ [CHR 0x27]))) \<and>
   cls (Exc ValueError (''invalid literal for int() with base 10: '' @ [CHR 0x27] @ ''12a''
                        @ [CHR 0x27])) = ValueError"
proof -
  have h1: "msg_get ''Content-Length'' (headers bad_length_request) = Some ''12a''"
    by code_simp
  have h2: "''12a'' \<noteq> []"
    by simp
  have h3: "py_int ''12a'' =
     Inl (Exc ValueError (''invalid literal for int() with base 10: '' @ [CHR 0x27] @ ''12a''
                          @ [CHR 0x27]))"
    by code_simp
  from bad_content_length_raises
         [where req = bad_length_request and v = "''12a''", OF h1 h2 h3] h1 h2 h3
  show ?thesis
    by blast
qed

text \<open>
  The claim C10 as it is worded fails at an empty value: it is no valid integer, the guard
  skips the body-reading step, and the request is relayed.
\<close>

theorem empty_content_length_counterexample:
  "msg_get ''Content-Length'' (headers empty_length_request) = Some [] \<and>
   py_int [] =
     Inl (Exc ValueError (''invalid literal for int() with base 10: '' @ [CHR 0x27, CHR 0x27])) \<and>
   snd (proxy_request ''sk-test'' ''POST'' empty_length_request json_upstream) = Returned \<and>
   statuses (fst (proxy_request ''sk-test'' ''POST'' empty_length_request json_upstream)) = [200]"
  by code_simp

section \<open>The relay of the response body\<close>

lemma forward_headers_flag: "snd (forward_headers hs f) = (f \<or> detectStreaming hs)"
proof (induction hs arbitrary: f)
  case Nil
  show ?case by (simp add: detectStreaming_def)
next
  case (Cons hv hs)
  obtain h v where hv: "hv = (h, v)" by (cases hv)
  have skip: "lower h \<notin> SKIP_RESPONSE_HEADERS" if "lower h = ''content-type''"
    using that by (simp add: SKIP_RESPONSE_HEADERS_def)
  have ds: "detectStreaming ((h, v) # hs) =
              ((lower h = ''content-type'' \<and> sublist ''text/event-stream'' v) \<or> detectStreaming hs)"
    by (simp add: detectStreaming_def)
  show ?case
    using skip by (auto simp: hv ds Cons.IH Let_def split_beta)
qed

lemma forward_headers_events:
  "fst (forward_headers hs f) =
     map (\<lambda>(h, v). Send_header h v) (filter (\<lambda>(h, v). lower h \<notin> SKIP_RESPONSE_HEADERS) hs)"
  by (induction hs arbitrary: f) (auto simp: Let_def split_beta)

text \<open>
  The blocks of \<open>chunks_of\<close> are not empty, have at most \<open>n\<close> elements, and make up the
  list again.
\<close>

lemma chunks_of_Nil: "chunks_of n [] = []"
  by (subst chunks_of.simps) simp

lemma chunks_of_step:
  "0 < n \<Longrightarrow> xs \<noteq> [] \<Longrightarrow> chunks_of n xs = take n xs # chunks_of n (drop n xs)"
  by (subst chunks_of.simps) simp



lemma delivered_whole_block:
  assumes "0 < amt" and "amt \<le> length (pending s)"
  shows "chunks_of amt (delivered amt s) =
           take amt (pending s)
           # chunks_of amt (delivered amt (s\<lparr>pending := drop amt (pending s)\<rparr>))"
proof (cases "failure s")
  case None
  from assms have "pending s \<noteq> []"
    by auto
  with None assms(1) show ?thesis
    by (simp add: delivered_def chunks_of_step)
next
  case (Some e)
  let ?p = "pending s"
  let ?k = "length ?p div amt"
  from assms have k: "1 \<le> ?k"
    by (simp add: Suc_le_eq div_greater_zero_iff)
  then have ge: "amt \<le> ?k * amt"
    by (cases ?k) simp_all
  have le: "?k * amt \<le> length ?p"
    by simp
  from assms ge le have ne: "take (?k * amt) ?p \<noteq> []"
    by auto
  have t: "take amt (take (?k * amt) ?p) = take amt ?p"
    using ge by (simp add: min_def)
  have "(length ?p - amt) div amt = ?k - 1"
    using assms by (simp add: le_div_geq)
  then have d: "drop amt (take (?k * amt) ?p) =
             take ((length ?p - amt) div amt * amt) (drop amt ?p)"
    by (simp add: drop_take diff_mult_distrib)
  show ?thesis
    using Some assms(1) ne
    by (simp add: delivered_def chunks_of_step t d)
qed

lemma delivered_short:
  assumes "length (pending s) < amt"
  shows "delivered amt s = (case failure s of None \<Rightarrow> pending s | Some e \<Rightarrow> [])"
  using assms by (simp add: delivered_def split: option.splits)


text \<open>
  The loop of lines 95 to 100, exactly: it reads, writes and flushes the chunks that
  successive calls of \<^verbatim>\<open>read(4096)\<close> return, and ends with the read that returns no bytes
  or raises.
\<close>

lemma stream_relay_exact:
  "stream_relay s =
     (chunk_relay 4096 (chunks_of 4096 (delivered 4096 s)) @ [last_read 4096 s], failure s)"
proof (induction s rule: stream_relay.induct)
  case (1 s)
  show ?case
  proof (cases "4096 \<le> length (pending s)")
    case True
    let ?s' = "s\<lparr>pending := drop 4096 (pending s)\<rparr>"
    have rd: "response_read 4096 s = Inr (take 4096 (pending s), ?s')"
      using True by (simp add: response_read_def)
    have pne: "pending s \<noteq> []"
      using True by auto
    then have ne: "take 4096 (pending s) \<noteq> []"
      by simp
    have ih: "stream_relay ?s' =
        (chunk_relay 4096 (chunks_of 4096 (delivered 4096 ?s')) @ [last_read 4096 ?s'],
         failure ?s')"
      by (rule "1.IH" [OF rd refl ne])
    have ch: "chunks_of 4096 (delivered 4096 s) =
                take 4096 (pending s) # chunks_of 4096 (delivered 4096 ?s')"
      by (rule delivered_whole_block) (use True in simp_all)
    show ?thesis
      by (subst stream_relay.simps)
         (simp add: rd pne ih ch chunk_relay_def last_read_def)
  next
    case False
    then have short: "length (pending s) < 4096"
      by simp
    show ?thesis
    proof (cases "failure s")
      case (Some e)
      with short have rd: "response_read 4096 s = Inl e"
        by (simp add: response_read_def)
      show ?thesis
        by (subst stream_relay.simps)
           (simp add: rd Some delivered_short [OF short] chunks_of_Nil chunk_relay_def
              last_read_def)
    next
      case None
      let ?s' = "s\<lparr>pending := []\<rparr>"
      from short None have rd: "response_read 4096 s = Inr (pending s, ?s')"
        by (simp add: response_read_def)
      show ?thesis
      proof (cases "pending s = []")
        case True
        show ?thesis
          by (subst stream_relay.simps)
             (simp add: rd True None delivered_def chunks_of_Nil chunk_relay_def last_read_def)
      next
        case ne: False
        have ih: "stream_relay ?s' =
            (chunk_relay 4096 (chunks_of 4096 (delivered 4096 ?s')) @ [last_read 4096 ?s'],
             failure ?s')"
          by (rule "1.IH" [OF rd refl ne])
        have d': "delivered 4096 ?s' = []"
          using None by (simp add: delivered_def)
        have ch: "chunks_of 4096 (delivered 4096 s) = [pending s]"
          using None ne short by (simp add: delivered_def chunks_of_step chunks_of_Nil)
        show ?thesis
          by (subst stream_relay.simps)
             (simp add: rd ne ih ch d' None chunks_of_Nil chunk_relay_def last_read_def)
      qed
    qed
  qed
qed

text \<open>
  The handler on a request whose upstream responds: the head, the events of the body relay,
  and then \<^verbatim>\<open>conn.close()\<close> when the relay ended normally, or the \<^verbatim>\<open>except\<close> clause of the
  exception that ended it.
\<close>

lemma proxy_request_responds:
  assumes "read_body req = Inr body_opt"
    and "up meth (path req) body_opt (build_headers API_KEY (headers req)) = Responds r"
  shows "proxy_request API_KEY meth req up =
           (case relay_body (detectStreaming (getheaders r)) (body r) of
              (bevs, None) \<Rightarrow>
                (relayed_head API_KEY meth req body_opt r @ bevs @ [Conn_close], Returned)
            | (bevs, Some e) \<Rightarrow>
                (relayed_head API_KEY meth req body_opt r @ bevs @ fst (except_clauses e),
                 snd (except_clauses e)))"
proof -
  obtain hevs flag where fh: "forward_headers (getheaders r) False = (hevs, flag)"
    by (cases "forward_headers (getheaders r) False")
  with forward_headers_flag [of "getheaders r" False] have flag: "flag = detectStreaming (getheaders r)"
    by simp
  obtain bevs failed where rb: "relay_body (detectStreaming (getheaders r)) (body r) = (bevs, failed)"
    by (cases "relay_body (detectStreaming (getheaders r)) (body r)")
  show ?thesis
    using assms fh rb
    by (cases failed)
       (auto simp: proxy_request_def try_body_def Let_def relayed_head_def flag split_beta)
qed



text \<open>
  The relay at two bodies: one chunk and the empty read for a short event stream that ends;
  the first block and the read that raises for a stream of 4106 bytes that times out.
\<close>

lemma stream_relay_examples:
  "stream_relay (body sse_response) =
     ([Response_read (Some 4096) (Inr ''data: ping''), Wfile_write ''data: ping'', Wfile_flush,
       Response_read (Some 4096) (Inr [])], None)"
  "stream_relay (body broken_stream_response) =
     ([Response_read (Some 4096) (Inr (replicate 4096 (CHR ''a''))),
       Wfile_write (replicate 4096 (CHR ''a'')), Wfile_flush,
       Response_read (Some 4096)
         (Inl (Exc TimeoutError ''The read operation timed out''))],
      Some (Exc TimeoutError ''The read operation timed out''))"
proof -
  show "stream_relay (body sse_response) =
     ([Response_read (Some 4096) (Inr ''data: ping''), Wfile_write ''data: ping'', Wfile_flush,
       Response_read (Some 4096) (Inr [])], None)"
    by (simp add: stream_relay_exact sse_response_def delivered_def chunks_of_step
          chunks_of_Nil chunk_relay_def last_read_def)
  have d: "delivered 4096 (body broken_stream_response) = replicate 4096 (CHR ''a'')"
    by (simp add: delivered_def broken_stream_response_def)
  have ne: "replicate 4096 (CHR ''a'') \<noteq> []"
    by simp
  have c: "chunks_of 4096 (replicate 4096 (CHR ''a'')) = [replicate 4096 (CHR ''a'')]"
    by (simp add: chunks_of_step [OF _ ne] chunks_of_Nil)
  show "stream_relay (body broken_stream_response) =
     ([Response_read (Some 4096) (Inr (replicate 4096 (CHR ''a''))),
       Wfile_write (replicate 4096 (CHR ''a'')), Wfile_flush,
       Response_read (Some 4096)
         (Inl (Exc TimeoutError ''The read operation timed out''))],
      Some (Exc TimeoutError ''The read operation timed out''))"
    by (simp add: stream_relay_exact d c chunk_relay_def last_read_def)
       (simp add: broken_stream_response_def)
qed



section \<open>A failure after the response has started\<close>

lemma error_after_output_append:
  "error_after_output sent (xs @ ys) =
     (error_after_output sent xs \<or> error_after_output (sent \<or> (\<exists>ev \<in> set xs. writes_bytes ev)) ys)"
proof (induction xs arbitrary: sent)
  case Nil
  show ?case by simp
next
  case (Cons ev xs)
  show ?case by (cases ev) (auto simp: Cons.IH)
qed

lemma relay_body_failure: "failure s = Some e \<Longrightarrow> snd (relay_body flag s) = Some e"
  by (simp add: relay_body_def response_read_all_def stream_relay_exact)

text \<open>
  C7, as amended. The claim: once response bytes have been written, a later failure never
  makes the handler emit a formatted error response; it tracks whether the headers have
  been sent. The handler keeps no such record: when the upstream body fails with an
  \<^verbatim>\<open>Exception\<close> after the head has been written, the matching \<^verbatim>\<open>except\<close> clause calls
  \<^verbatim>\<open>send_error\<close> as it does for an early failure, so a formatted error response follows
  the bytes already written, and the handler returns.
\<close>

theorem error_after_partial_response:
  assumes "read_body req = Inr body_opt"
    and "up meth (path req) body_opt (build_headers API_KEY (headers req)) = Responds r"
    and "failure (body r) = Some e"
    and "isinstance_Exception (cls e)"
  shows "error_after_output False (fst (proxy_request API_KEY meth req up)) \<and>
         (\<exists>bevs. proxy_request API_KEY meth req up =
            (relayed_head API_KEY meth req body_opt r @ bevs @ fst (except_clauses e),
             Returned))"
proof -
  obtain bevs where rb: "relay_body (detectStreaming (getheaders r)) (body r) = (bevs, Some e)"
    using relay_body_failure [OF assms(3), of "detectStreaming (getheaders r)"]
    by (cases "relay_body (detectStreaming (getheaders r)) (body r)") auto
  from assms(4) have "\<exists>code message. except_clauses e = ([Send_error code message], Returned)"
    by (simp add: except_clauses_def)
  then obtain code message where ec: "except_clauses e = ([Send_error code message], Returned)"
    by blast
  have pr: "proxy_request API_KEY meth req up =
          (relayed_head API_KEY meth req body_opt r @ bevs @ fst (except_clauses e), Returned)"
    by (simp add: proxy_request_responds [of req body_opt up meth API_KEY r, OF assms(1,2)] rb ec)
  have "End_headers \<in> set (relayed_head API_KEY meth req body_opt r)"
    by (simp add: relayed_head_def)
  then have "\<exists>ev \<in> set (relayed_head API_KEY meth req body_opt r @ bevs). writes_bytes ev"
    by (auto intro: bexI [of _ End_headers])
  then have "error_after_output False
          ((relayed_head API_KEY meth req body_opt r @ bevs) @ fst (except_clauses e))"
    by (subst error_after_output_append) (simp add: ec)
  then have eao: "error_after_output False (fst (proxy_request API_KEY meth req up))"
    by (simp add: pr)
  show ?thesis
  proof (intro conjI exI)
    show "error_after_output False (fst (proxy_request API_KEY meth req up))"
      by (rule eao)
    show "proxy_request API_KEY meth req up =
            (relayed_head API_KEY meth req body_opt r @ bevs @ fst (except_clauses e), Returned)"
      by (rule pr)
  qed
qed

theorem error_after_partial_response_witness:
  "read_body example_request = Inr None \<and>
   truncating_upstream ''GET'' (path example_request) None
     (build_headers ''sk-test'' (headers example_request)) = Responds truncated_response \<and>
   failure (body truncated_response) = Some (Exc IncompleteRead ''IncompleteRead(1 bytes read)'') \<and>
   isinstance_Exception (cls (Exc IncompleteRead ''IncompleteRead(1 bytes read)'')) \<and>
   error_after_output False
     (fst (proxy_request ''sk-test'' ''GET'' example_request truncating_upstream)) \<and>
   (\<exists>bevs. proxy_request ''sk-test'' ''GET'' example_request truncating_upstream =
      (relayed_head ''sk-test'' ''GET'' example_request None truncated_response @ bevs
       @ fst (except_clauses (Exc IncompleteRead ''IncompleteRead(1 bytes read)'')), Returned))"
proof -
  have h1: "read_body example_request = Inr None"
    by code_simp
  have h2: "truncating_upstream ''GET'' (path example_request) None
     (build_headers ''sk-test'' (headers example_request)) = Responds truncated_response"
    by (simp add: truncating_upstream_def)
  have h3: "failure (body truncated_response) =
              Some (Exc IncompleteRead ''IncompleteRead(1 bytes read)'')"
    by (simp add: truncated_response_def)
  have h4: "isinstance_Exception (cls (Exc IncompleteRead ''IncompleteRead(1 bytes read)''))"
    by simp
  from error_after_partial_response
         [of example_request None truncating_upstream "''GET''" "''sk-test''" truncated_response
             "Exc IncompleteRead ''IncompleteRead(1 bytes read)''", OF h1 h2 h3 h4] h1 h2 h3 h4
  show ?thesis
    by blast
qed

text \<open>
  The claim C7 as it is worded fails at an upstream whose body breaks off: the caller is sent
  the status 200 and the headers, and then a 502 error response.
\<close>

theorem error_after_partial_response_counterexample:
  "statuses (fst (proxy_request ''sk-test'' ''GET'' example_request truncating_upstream)) =
     [200, 502] \<and>
   error_after_output False
     (fst (proxy_request ''sk-test'' ''GET'' example_request truncating_upstream))"
  by code_simp

section \<open>The upstream connection\<close>

lemma chunk_relay_no_close: "Conn_close \<notin> set (chunk_relay amt chunks)"
  by (induction chunks) (auto simp: chunk_relay_def)

lemma relay_body_no_close: "Conn_close \<notin> set (fst (relay_body flag s))"
  using chunk_relay_no_close
  by (auto simp: relay_body_def stream_relay_exact last_read_def split: sum.splits)

lemma relayed_head_no_close: "Conn_close \<notin> set (relayed_head API_KEY meth req body_opt r)"
  by (auto simp: relayed_head_def forward_headers_events)

lemma except_clauses_no_close: "Conn_close \<notin> set (fst (except_clauses e))"
  by (simp add: except_clauses_def)

text \<open>
  \<^verbatim>\<open>conn.close()\<close> is called exactly on the runs whose \<^verbatim>\<open>try\<close> body ends without an
  exception.
\<close>

lemma close_only_on_success:
  "Conn_close \<in> set (fst (proxy_request API_KEY meth req up)) \<longleftrightarrow>
     (\<exists>body_opt. read_body req = Inr body_opt \<and>
        snd (try_body API_KEY meth req body_opt up) = None)"
proof (cases "read_body req")
  case (Inl e)
  then show ?thesis
    by (simp add: proxy_request_def)
next
  case (Inr body_opt)
  show ?thesis
  proof (cases "up meth (path req) body_opt (build_headers API_KEY (headers req))")
    case (RequestFails e)
    with Inr show ?thesis
      using except_clauses_no_close [of e]
      by (simp add: proxy_request_def try_body_def Let_def split_beta)
  next
    case (GetResponseFails e)
    with Inr show ?thesis
      using except_clauses_no_close [of e]
      by (simp add: proxy_request_def try_body_def Let_def split_beta)
  next
    case (Responds r)
    obtain bevs failed where
      rb: "relay_body (detectStreaming (getheaders r)) (body r) = (bevs, failed)"
      by (cases "relay_body (detectStreaming (getheaders r)) (body r)")
    have nb: "Conn_close \<notin> set bevs"
      using relay_body_no_close [of "detectStreaming (getheaders r)" "body r"] rb by simp
    have fl: "snd (forward_headers (getheaders r) False) = detectStreaming (getheaders r)"
      by (simp add: forward_headers_flag)
    have tb: "snd (try_body API_KEY meth req body_opt up) = failed"
      using Responds rb fl
      by (cases failed) (simp_all add: try_body_def Let_def split_beta)
    show ?thesis
      using nb relayed_head_no_close [of API_KEY meth req body_opt r]
        except_clauses_no_close
      by (cases failed)
         (simp_all add: proxy_request_responds [of req body_opt up meth API_KEY r, OF Inr Responds]
            rb Inr tb)
  qed
qed

text \<open>
  C6. The claim: one upstream connection is opened for every request, and it is closed on
  every exit path, the error paths too. The code at an upstream that does not answer:
  the connection object is made, the request is sent, the timeout is turned into a 504,
  and \<^verbatim>\<open>conn.close()\<close>, the last statement of the \<^verbatim>\<open>try\<close> body, is never reached.
\<close>

theorem connection_left_open_on_error:
  "proxy_request ''sk-test'' ''GET'' example_request silent_upstream =
     ([HTTPSConnection ''api.anthropic.com'' 443 300,
       Conn_request ''GET'' ''/v1/models'' None
         [(''Host'', ''api.anthropic.com''), (''x-api-key'', ''sk-test''), (''Accept'', ''*/*'')],
       Send_error 504 ''Upstream timeout''], Returned) \<and>
   Conn_close \<notin> set (fst (proxy_request ''sk-test'' ''GET'' example_request silent_upstream))"
  by code_simp

section \<open>Log lines and error messages do not depend on the credential\<close>







end
